theory Spec2Isabelle
  imports Complex_Main "HOL-Library.Char_ord" "HOL-Library.List_Lexorder"
begin

section \<open>Values and exceptions\<close>

text \<open>
  Python values that travel through the pipeline (JSON-like dictionaries, DynamoDB
  attribute values). A dictionary is an association list in insertion order. \<open>F\<close> is a
  Python float and \<open>Dec\<close> a \<open>Decimal\<close>; both are taken as the number they denote.
\<close>

datatype attr =
    Null
  | B bool
  | N int
  | F real
  | Dec real
  | S string
  | L "attr list"
  | M "(string \<times> attr) list"

text \<open>Python truthiness, as used by \<open>if result:\<close> and \<open>if result.get(...)\<close>.\<close>

fun truthy :: "attr \<Rightarrow> bool" where
  "truthy Null = False"
| "truthy (B b) = b"
| "truthy (N n) = (n \<noteq> 0)"
| "truthy (F x) = (x \<noteq> 0)"
| "truthy (Dec x) = (x \<noteq> 0)"
| "truthy (S s) = (s \<noteq> [])"
| "truthy (L xs) = (xs \<noteq> [])"
| "truthy (M kvs) = (kvs \<noteq> [])"

text \<open>\<open>d.get(k)\<close>: the value, or \<open>None\<close> when the key is absent.\<close>

definition dict_get :: "(string \<times> attr) list \<Rightarrow> string \<Rightarrow> attr" where
  "dict_get d k = (case map_of d k of None \<Rightarrow> Null | Some v \<Rightarrow> v)"

text \<open>\<open>d[k] = v\<close>: replaces in place, or appends a new key at the end.\<close>

fun dict_set :: "(string \<times> attr) list \<Rightarrow> string \<Rightarrow> attr \<Rightarrow> (string \<times> attr) list" where
  "dict_set [] k v = [(k, v)]"
| "dict_set ((k', v') # d) k v = (if k' = k then (k, v) # d else (k', v') # dict_set d k v)"

text \<open>
  An exception is its class and \<open>str(e)\<close>. The classes are the ones the code raises or
  catches by name, and \<open>OtherException\<close> for any other subclass of \<open>Exception\<close>.
\<close>

datatype exn_class =
    RuntimeError
  | CalledProcessError
  | HTTPException
  | ClientError
  | KeyError
  | TypeError
  | OSError
  | JSONDecodeError
  | OtherException

datatype exn = Exn (exn_cls: exn_class) (exn_str: string)

section \<open>Progress Tracker (dynamodb\_service.py)\<close>

text \<open>
  A DynamoDB item is a map from attribute names to values; the table maps the key
  (partition key \<open>qut_username\<close>, sort key \<open>job_id\<close>) to the item. Every request sent
  to the table is logged with the attributes it sets and whether the table took it.
\<close>

type_synonym item = "string \<rightharpoonup> attr"

record ddb_request =
  req_key :: "string \<times> string"
  req_sets :: "(string \<times> attr) list"
  req_applied :: bool

record tracker =
  table :: "(string \<times> string) \<rightharpoonup> item"
  requests :: "ddb_request list"
  ticks :: nat

text \<open>
  What the process cannot decide by itself: the fault (if any) with which the table
  answers its \<open>n\<close>-th request, and the clock read by the \<open>n\<close>-th call of
  \<open>datetime.utcnow().isoformat()\<close>.
\<close>

record ddb_env =
  ddb_fault :: "nat \<Rightarrow> exn option"
  utcnow_iso :: "nat \<Rightarrow> string"

record DynamoDBService =
  qut_username :: string

definition utcnow :: "ddb_env \<Rightarrow> tracker \<Rightarrow> string \<times> tracker" where
  "utcnow env tr = (utcnow_iso env (ticks tr) @ ''Z'', tr\<lparr>ticks := Suc (ticks tr)\<rparr>)"

text \<open>
  \<open>Table.put_item\<close> replaces the whole item; \<open>Table.update_item\<close> with a \<open>SET\<close>
  expression writes the named attributes of the item under the key and creates the item
  (with its key attributes) when there is none. A faulted request changes nothing.
\<close>

definition put_item :: "ddb_env \<Rightarrow> string \<times> string \<Rightarrow> (string \<times> attr) list \<Rightarrow> tracker
    \<Rightarrow> exn option \<times> tracker" where
  "put_item env key attrs tr =
     (case ddb_fault env (length (requests tr)) of
        Some e \<Rightarrow>
          (Some e, tr\<lparr>requests := requests tr @
             [\<lparr>req_key = key, req_sets = attrs, req_applied = False\<rparr>]\<rparr>)
      | None \<Rightarrow>
          (None, tr\<lparr>table := (table tr)(key \<mapsto> map_of attrs),
                     requests := requests tr @
             [\<lparr>req_key = key, req_sets = attrs, req_applied = True\<rparr>]\<rparr>))"

definition key_item :: "string \<times> string \<Rightarrow> item" where
  "key_item key = [''qut_username'' \<mapsto> S (fst key), ''job_id'' \<mapsto> S (snd key)]"

definition update_item :: "ddb_env \<Rightarrow> string \<times> string \<Rightarrow> (string \<times> attr) list \<Rightarrow> tracker
    \<Rightarrow> exn option \<times> tracker" where
  "update_item env key sets tr =
     (case ddb_fault env (length (requests tr)) of
        Some e \<Rightarrow>
          (Some e, tr\<lparr>requests := requests tr @
             [\<lparr>req_key = key, req_sets = sets, req_applied = False\<rparr>]\<rparr>)
      | None \<Rightarrow>
          (None, tr\<lparr>table := (table tr)(key \<mapsto>
                       (case table tr key of None \<Rightarrow> key_item key | Some it \<Rightarrow> it)
                         ++ map_of sets),
                     requests := requests tr @
             [\<lparr>req_key = key, req_sets = sets, req_applied = True\<rparr>]\<rparr>))"

text \<open>\<open>_convert_floats_to_decimal\<close>\<close>

primrec convert_floats_to_decimal :: "attr \<Rightarrow> attr" where
  "convert_floats_to_decimal Null = Null"
| "convert_floats_to_decimal (B b) = B b"
| "convert_floats_to_decimal (N n) = N n"
| "convert_floats_to_decimal (F x) = Dec x"
| "convert_floats_to_decimal (Dec x) = Dec x"
| "convert_floats_to_decimal (S s) = S s"
| "convert_floats_to_decimal (L xs) = L (map convert_floats_to_decimal xs)"
| "convert_floats_to_decimal (M kvs) = M (map (map_prod id convert_floats_to_decimal) kvs)"

text \<open>
  Each operation wraps its request in \<open>try ... except ClientError\<close>: a \<open>ClientError\<close>
  is printed and the operation returns \<open>False\<close>; any other exception leaves the method
  (\<open>Inl\<close>).
\<close>

definition except_ClientError :: "exn option \<times> tracker \<Rightarrow> (exn + bool) \<times> tracker" where
  "except_ClientError r =
     (case fst r of
        None \<Rightarrow> (Inr True, snd r)
      | Some e \<Rightarrow> (if exn_cls e = ClientError then (Inr False, snd r) else (Inl e, snd r)))"

definition initial_steps :: attr where
  "initial_steps = M
     [(''1'', M [(''name'', S ''Download from S3''), (''current_status'', S ''pending'')]),
      (''2'', M [(''name'', S ''Extract thumbnail''), (''current_status'', S ''pending'')]),
      (''3'', M [(''name'', S ''Transcode video''), (''current_status'', S ''pending'')]),
      (''4'', M [(''name'', S ''ML prediction''), (''current_status'', S ''pending'')]),
      (''5'', M [(''name'', S ''Upload results''), (''current_status'', S ''pending'')])]"

definition create_job_progress :: "ddb_env \<Rightarrow> DynamoDBService \<Rightarrow> string \<Rightarrow> string \<Rightarrow> string
    \<Rightarrow> tracker \<Rightarrow> (exn + bool) \<times> tracker" where
  "create_job_progress env self job_id video_filename owner tr =
     (let (created, tr1) = utcnow env tr;
          (updated, tr2) = utcnow env tr1
      in except_ClientError
           (put_item env (qut_username self, job_id)
              [(''qut_username'', S (qut_username self)),
               (''job_id'', S job_id),
               (''status'', S ''queued''),
               (''progress'', N 0),
               (''current_step'', S ''initialized''),
               (''total_steps'', N 5),
               (''created_at'', S created),
               (''updated_at'', S updated),
               (''video_filename'', S video_filename),
               (''owner'', S owner),
               (''steps'', initial_steps)] tr2))"

text \<open>
  \<open>step_status\<close> is a parameter of the method that its body never reads. \<open>result\<close> is
  \<open>None\<close> (the default) or a dictionary; \<open>if result:\<close> skips an empty one.
\<close>

definition update_job_progress :: "ddb_env \<Rightarrow> DynamoDBService \<Rightarrow> string \<Rightarrow> int \<Rightarrow> string
    \<Rightarrow> string \<Rightarrow> attr \<Rightarrow> tracker \<Rightarrow> (exn + bool) \<times> tracker" where
  "update_job_progress env self job_id progress current_step step_status result tr =
     (let (now, tr1) = utcnow env tr;
          sets = [(''progress'', N progress), (''current_step'', S current_step),
                  (''updated_at'', S now)]
                 @ (if truthy result
                    then [(''ml_result'', convert_floats_to_decimal result)] else [])
      in except_ClientError (update_item env (qut_username self, job_id) sets tr1))"

definition complete_job :: "ddb_env \<Rightarrow> DynamoDBService \<Rightarrow> string \<Rightarrow> attr \<Rightarrow> tracker
    \<Rightarrow> (exn + bool) \<times> tracker" where
  "complete_job env self job_id result tr =
     (let (now, tr1) = utcnow env tr
      in except_ClientError
           (update_item env (qut_username self, job_id)
              [(''status'', S ''completed''), (''progress'', N 100),
               (''ml_result'', convert_floats_to_decimal result),
               (''updated_at'', S now)] tr1))"

definition fail_job :: "ddb_env \<Rightarrow> DynamoDBService \<Rightarrow> string \<Rightarrow> string \<Rightarrow> tracker
    \<Rightarrow> (exn + bool) \<times> tracker" where
  "fail_job env self job_id error_message tr =
     (let (now, tr1) = utcnow env tr
      in except_ClientError
           (update_item env (qut_username self, job_id)
              [(''status'', S ''failed''), (''error_message'', S error_message),
               (''updated_at'', S now)] tr1))"

definition get_job_progress :: "DynamoDBService \<Rightarrow> string \<Rightarrow> tracker \<Rightarrow> item option" where
  "get_job_progress self job_id tr = table tr (qut_username self, job_id)"

section \<open>Object store (s3\_config.py, s3\_service.py)\<close>

record S3Config =
  region :: string
  bucket_name :: string
  upload_prefix :: string
  transcoded_prefix :: string
  thumbnails_prefix :: string
  temp_prefix :: string

text \<open>\<open>get_upload_key\<close> draws a fresh \<open>uuid4\<close>; the other keys are built from their arguments.\<close>

definition get_upload_key :: "S3Config \<Rightarrow> string \<Rightarrow> string \<Rightarrow> string" where
  "get_upload_key cfg unique_id filename = upload_prefix cfg @ unique_id @ ''_'' @ filename"

definition get_transcoded_key :: "S3Config \<Rightarrow> string \<Rightarrow> string \<Rightarrow> string" where
  "get_transcoded_key cfg job_id filename = transcoded_prefix cfg @ job_id @ ''/'' @ filename"

definition get_thumbnail_key :: "S3Config \<Rightarrow> string \<Rightarrow> string \<Rightarrow> string" where
  "get_thumbnail_key cfg job_id filename = thumbnails_prefix cfg @ job_id @ ''/'' @ filename"

definition get_temp_key :: "S3Config \<Rightarrow> string \<Rightarrow> string \<Rightarrow> string" where
  "get_temp_key cfg job_id filename = temp_prefix cfg @ job_id @ ''/'' @ filename"

record s3_object =
  body :: string
  content_type :: string
  server_side_encryption :: string

text \<open>
  The bucket maps a key to its object. The service's answers that the process cannot
  decide: a fault of the put or get request for a key, and \<open>mimetypes.guess_type\<close>.
\<close>

record s3_env =
  s3_put_fault :: "string \<Rightarrow> exn option"
  s3_get_fault :: "string \<Rightarrow> exn option"
  guess_type :: "string \<Rightarrow> string option"

text \<open>\<open>HTTPException(status_code, detail)\<close>, with \<open>str(e)\<close> as Starlette prints it.\<close>

definition http_exception :: "string \<Rightarrow> string \<Rightarrow> exn" where
  "http_exception status_code detail = Exn HTTPException (status_code @ '': '' @ detail)"

text \<open>
  \<open>upload_fileobj\<close> is a put: it stores the object under the key whether or not the key
  already holds one. \<open>upload_file\<close> makes no existence check of its own.
\<close>

definition upload_file :: "s3_env \<Rightarrow> S3Config \<Rightarrow> string \<Rightarrow> string \<Rightarrow> string option
    \<Rightarrow> (string \<rightharpoonup> s3_object) \<Rightarrow> (exn + attr) \<times> (string \<rightharpoonup> s3_object)" where
  "upload_file env cfg file_obj key ctype bucket =
     (let ct = (case ctype of
                  Some c \<Rightarrow> if c \<noteq> [] then c
                            else (case guess_type env key of
                                    Some g \<Rightarrow> if g \<noteq> [] then g else ''application/octet-stream''
                                  | None \<Rightarrow> ''application/octet-stream'')
                | None \<Rightarrow> (case guess_type env key of
                             Some g \<Rightarrow> if g \<noteq> [] then g else ''application/octet-stream''
                           | None \<Rightarrow> ''application/octet-stream''))
      in case s3_put_fault env key of
           Some e \<Rightarrow>
             (if exn_cls e = ClientError
              then (Inl (http_exception ''500'' (''Failed to upload file: '' @ exn_str e)), bucket)
              else (Inl e, bucket))
         | None \<Rightarrow>
             (Inr (M [(''success'', B True), (''key'', S key),
                      (''url'', S (''https://'' @ bucket_name cfg @ ''.s3.'' @ region cfg
                                   @ ''.amazonaws.com/'' @ key)),
                      (''bucket'', S (bucket_name cfg))]),
              bucket(key \<mapsto> \<lparr>body = file_obj, content_type = ct,
                               server_side_encryption = ''AES256''\<rparr>)))"

definition download_file :: "s3_env \<Rightarrow> string \<Rightarrow> (string \<rightharpoonup> s3_object) \<Rightarrow> exn + string" where
  "download_file env key bucket =
     (case s3_get_fault env key of
        Some e \<Rightarrow>
          (if exn_cls e = ClientError
           then Inl (http_exception ''500'' (''Failed to download file: '' @ exn_str e))
           else Inl e)
      | None \<Rightarrow>
          (case bucket key of
             None \<Rightarrow> Inl (http_exception ''404'' ''File not found'')
           | Some obj \<Rightarrow> Inr (body obj)))"

section \<open>Media transform stages (tasks.py)\<close>

text \<open>
  The worker's surroundings, as far as the stages read them: the result of
  \<open>shutil.which\<close>, the outcome of a child process (the message of the \<open>OSError\<close>
  raised on launch, or its exit status), the message of the \<open>OSError\<close> of a failed
  \<open>os.makedirs\<close>, and the local files as the external tools leave them.
\<close>

record media_env =
  which :: "string \<Rightarrow> string option"
  subprocess_run :: "string list \<Rightarrow> string + int"
  called_process_error_str :: "string list \<Rightarrow> int \<Rightarrow> string"
  makedirs_fault :: "string \<Rightarrow> string option"
  listdir :: "string \<Rightarrow> exn + string list"
  path_exists :: "string \<Rightarrow> bool"
  read_bytes :: "string \<Rightarrow> exn + string"
  write_fault :: "string \<Rightarrow> exn option"
  ensure_model_fault :: "exn option"
  labels_map :: "string list option"
  topk_scores :: "string \<Rightarrow> nat \<Rightarrow> exn + (nat \<times> real) list"
  save_thumbnail :: "string \<Rightarrow> string \<Rightarrow> exn option"
  format_exc :: "exn \<Rightarrow> string"
  json_dumps :: "attr \<Rightarrow> string"

definition path_join :: "string \<Rightarrow> string \<Rightarrow> string" where
  "path_join a b =
     (if b \<noteq> [] \<and> hd b = CHR ''/'' then b
      else if a = [] \<or> last a = CHR ''/'' then a @ b
      else a @ ''/'' @ b)"

definition digit_char :: "nat \<Rightarrow> char" where
  "digit_char d = char_of (48 + d)"

fun show_nat :: "nat \<Rightarrow> string" where
  "show_nat n = (if n < 10 then [digit_char n] else show_nat (n div 10) @ [digit_char (n mod 10)])"

declare show_nat.simps [simp del]

definition show_int :: "int \<Rightarrow> string" where
  "show_int i = (if i < 0 then ''-'' @ show_nat (nat (- i)) else show_nat (nat i))"

text \<open>
  \<open>str.lower\<close> on the ASCII letters, which is all that \<open>endswith(".jpg")\<close> can see: no
  other character lowers to one of \<open>.\<close>, \<open>j\<close>, \<open>p\<close>, \<open>g\<close>.
\<close>

definition lower_char :: "char \<Rightarrow> char" where
  "lower_char c =
     (if 65 \<le> (of_char c :: nat) \<and> (of_char c :: nat) \<le> 90
      then char_of ((of_char c :: nat) + 32) else c)"

definition lower :: "string \<Rightarrow> string" where
  "lower s = map lower_char s"

definition endswith :: "string \<Rightarrow> string \<Rightarrow> bool" where
  "endswith s suf = (length suf \<le> length s \<and> drop (length s - length suf) s = suf)"

definition is_jpg :: "string \<Rightarrow> bool" where
  "is_jpg fname = endswith (lower fname) ''.jpg''"

definition transcode_cmd :: "string \<Rightarrow> string \<Rightarrow> string \<Rightarrow> string list" where
  "transcode_cmd ffmpeg input_path output_path =
     [ffmpeg, ''-y'', ''-i'', input_path,
      ''-vf'', ''scale=1920:1080'',
      ''-c:v'', ''libx264'',
      ''-preset'', ''slow'',
      ''-crf'', ''18'',
      ''-profile:v'', ''high'',
      ''-level'', ''4.1'',
      ''-bf'', ''3'',
      ''-g'', ''60'',
      ''-keyint_min'', ''60'',
      ''-sc_threshold'', ''0'',
      ''-tune'', ''film'',
      ''-x264opts'', ''ref=6:me=umh:subme=9:merange=24:trellis=2:aq-mode=3'',
      output_path]"

text \<open>\<open>subprocess.run(cmd, check=True)\<close>\<close>

definition run_checked :: "media_env \<Rightarrow> string list \<Rightarrow> exn + unit" where
  "run_checked env cmd =
     (case subprocess_run env cmd of
        Inl msg \<Rightarrow> Inl (Exn OSError msg)
      | Inr status \<Rightarrow>
          if status \<noteq> 0
          then Inl (Exn CalledProcessError (called_process_error_str env cmd status))
          else Inr ())"

definition transcode_video :: "media_env \<Rightarrow> string \<Rightarrow> string \<Rightarrow> exn + unit" where
  "transcode_video env input_path output_path =
     (case which env ''ffmpeg'' of
        None \<Rightarrow> Inl (Exn RuntimeError ''ffmpeg not found in PATH'')
      | Some ffmpeg \<Rightarrow>
          if ffmpeg = [] then Inl (Exn RuntimeError ''ffmpeg not found in PATH'')
          else run_checked env (transcode_cmd ffmpeg input_path output_path))"

definition extract_frames :: "media_env \<Rightarrow> string \<Rightarrow> string \<Rightarrow> int \<Rightarrow> exn + unit" where
  "extract_frames env video_path frames_dir fps =
     (case which env ''ffmpeg'' of
        None \<Rightarrow> Inl (Exn RuntimeError ''ffmpeg not found in PATH'')
      | Some ffmpeg \<Rightarrow>
          if ffmpeg = [] then Inl (Exn RuntimeError ''ffmpeg not found in PATH'')
          else (case makedirs_fault env frames_dir of
                  Some msg \<Rightarrow> Inl (Exn OSError msg)
                | None \<Rightarrow>
                    run_checked env
                      [ffmpeg, ''-y'', ''-i'', video_path, ''-vf'', ''fps='' @ show_int fps,
                       path_join frames_dir ''frame_%05d.jpg'']))"

text \<open>
  One frame of the inference loop. Everything from opening the image to appending the
  entry is inside \<open>try ... except Exception\<close>: a frame whose scoring raises (also an
  index outside the labels list) gets an entry with the error in place of its labels.
\<close>

fun frame_labels :: "string list option \<Rightarrow> (nat \<times> real) list \<Rightarrow> exn + attr list" where
  "frame_labels lm [] = Inr []"
| "frame_labels lm ((idx, p) # rest) =
     (case (case lm of
              None \<Rightarrow> Inr (show_nat idx)
            | Some names \<Rightarrow>
                if names = [] then Inr (show_nat idx)
                else if idx < length names then Inr (names ! idx)
                else Inl (Exn OtherException ''list index out of range'')) of
        Inl e \<Rightarrow> Inl e
      | Inr label_text \<Rightarrow>
          (case frame_labels lm rest of
             Inl e \<Rightarrow> Inl e
           | Inr labels \<Rightarrow>
               Inr (M [(''index'', N (int idx)), (''label'', S label_text),
                       (''probability'', F p)] # labels)))"

definition score_frame :: "media_env \<Rightarrow> string \<Rightarrow> nat \<Rightarrow> exn + attr list" where
  "score_frame env path topk =
     (case topk_scores env path topk of
        Inl e \<Rightarrow> Inl e
      | Inr scores \<Rightarrow> frame_labels (labels_map env) scores)"

definition frame_entry :: "media_env \<Rightarrow> string \<Rightarrow> nat \<Rightarrow> string \<Rightarrow> attr" where
  "frame_entry env frames_dir topk fname =
     (case score_frame env (path_join frames_dir fname) topk of
        Inr labels \<Rightarrow> M [(''frame'', S fname), (''labels'', L labels)]
      | Inl e \<Rightarrow> M [(''frame'', S fname), (''labels'', L [M [(''error'', S (exn_str e))]])])"

fun infer_loop :: "media_env \<Rightarrow> string \<Rightarrow> nat \<Rightarrow> string list \<Rightarrow> attr list \<Rightarrow> attr list" where
  "infer_loop env frames_dir topk [] results = results"
| "infer_loop env frames_dir topk (fname # rest) results =
     (if \<not> is_jpg fname then infer_loop env frames_dir topk rest results
      else infer_loop env frames_dir topk rest
             (results @ [frame_entry env frames_dir topk fname]))"

definition run_inference_on_frames :: "media_env \<Rightarrow> string \<Rightarrow> nat \<Rightarrow> exn + attr list" where
  "run_inference_on_frames env frames_dir topk =
     (case ensure_model_fault env of
        Some e \<Rightarrow> Inl e
      | None \<Rightarrow>
          (case listdir env frames_dir of
             Inl e \<Rightarrow> Inl e
           | Inr names \<Rightarrow> Inr (infer_loop env frames_dir topk (sort names) [])))"

text \<open>\<open>os.path.basename\<close>: what follows the last slash.\<close>

definition basename :: "string \<Rightarrow> string" where
  "basename p = rev (takeWhile (\<lambda>c. c \<noteq> CHR ''/'') (rev p))"

text \<open>
  \<open>process_job\<close>. The inference call is wrapped: whatever it raises becomes a one-entry
  result. Writing the local \<open>result.json\<close> is wrapped too and changes nothing the
  function returns, so it does not appear.
\<close>

definition process_job :: "media_env \<Rightarrow> string \<Rightarrow> string \<Rightarrow> int \<Rightarrow> exn + (string \<times> attr) list" where
  "process_job env video_path out_dir fps =
     (case makedirs_fault env out_dir of
        Some msg \<Rightarrow> Inl (Exn OSError msg)
      | None \<Rightarrow>
     (let transcoded = path_join out_dir ''transcoded.mp4'';
          frames_dir = path_join out_dir ''frames''
      in case makedirs_fault env frames_dir of
        Some msg \<Rightarrow> Inl (Exn OSError msg)
      | None \<Rightarrow>
     (case transcode_video env video_path transcoded of
        Inl e \<Rightarrow> Inl e
      | Inr _ \<Rightarrow>
     (case extract_frames env transcoded frames_dir fps of
        Inl e \<Rightarrow> Inl e
      | Inr _ \<Rightarrow>
     (let inference =
            (case run_inference_on_frames env frames_dir 3 of
               Inr r \<Rightarrow> r
             | Inl e \<Rightarrow> [M [(''error'', S (exn_str e)), (''trace'', S (format_exc env e))]])
      in case listdir env frames_dir of
        Inl e \<Rightarrow> Inl e
      | Inr names \<Rightarrow>
     (let thumbs = sort (filter is_jpg names);
          thumbnail_path = path_join out_dir ''thumbnail.jpg''
      in case (if thumbs \<noteq> []
               then save_thumbnail env (path_join frames_dir (hd thumbs)) thumbnail_path
               else None) of
        Some e \<Rightarrow> Inl e
      | None \<Rightarrow>
          Inr [(''transcoded'',
                  if path_exists env transcoded then S (basename transcoded) else Null),
               (''thumbnail'', if thumbs \<noteq> [] then S (basename thumbnail_path) else Null),
               (''frames_dir'', S frames_dir),
               (''inference'', L inference)]))))))"

section \<open>Job Record Store (the SQL update inside tasks.py)\<close>

record sql_job =
  sj_job_id :: string
  sj_status :: string
  sj_result :: attr

record db_secret =
  sec_username :: string
  sec_password :: string
  sec_host :: string
  sec_port :: string
  sec_dbname :: string

text \<open>
  The environment of the SQL update: \<open>DATABASE_URL\<close>, the answer of Secrets Manager
  (the parsed secret, or the exception of fetching or parsing it), the \<open>RDS_*\<close>
  variables with their defaults applied, and the fault (if any) of connecting, querying
  or committing.
\<close>

record sql_env =
  env_DATABASE_URL :: "string option"
  secret :: "exn + db_secret"
  rds_host :: string
  rds_port :: string
  rds_db_name :: string
  rds_username :: string
  rds_password :: string
  sql_fault :: "exn option"

definition postgres_url :: "string \<Rightarrow> string \<Rightarrow> string \<Rightarrow> string \<Rightarrow> string \<Rightarrow> string" where
  "postgres_url username password host port dbname =
     ''postgresql+psycopg2://'' @ username @ '':'' @ password @ ''@'' @ host @ '':'' @ port
       @ ''/'' @ dbname @ ''?sslmode=require''"

text \<open>The three sources of the database URL, in the code's order; \<open>None\<close> when all fail.\<close>

definition database_url :: "sql_env \<Rightarrow> string option" where
  "database_url env =
     (let from_environment =
            (case env_DATABASE_URL env of
               Some u \<Rightarrow> if u \<noteq> [] then Some u else None
             | None \<Rightarrow> None);
          from_secret =
            (case from_environment of
               Some u \<Rightarrow> Some u
             | None \<Rightarrow>
                 (case secret env of
                    Inr sec \<Rightarrow>
                      Some (postgres_url (sec_username sec) (sec_password sec) (sec_host sec)
                              (sec_port sec) (sec_dbname sec))
                  | Inl e \<Rightarrow> None))
      in case from_secret of
           Some u \<Rightarrow> Some u
         | None \<Rightarrow>
             if rds_username env \<noteq> [] \<and> rds_password env \<noteq> []
             then Some (postgres_url (rds_username env) (rds_password env)
                          (rds_host env) (rds_port env) (rds_db_name env))
             else None)"

text \<open>
  \<open>db.query(Job).filter(Job.job_id == job_id).first()\<close>, then \<open>status = "done"\<close>,
  \<open>result = result\<close> and commit: the first row with the job id is rewritten.
\<close>

fun set_done :: "string \<Rightarrow> attr \<Rightarrow> sql_job list \<Rightarrow> sql_job list" where
  "set_done job_id result [] = []"
| "set_done job_id result (j # js) =
     (if sj_job_id j = job_id
      then j\<lparr>sj_status := ''done'', sj_result := result\<rparr> # js
      else j # set_done job_id result js)"

text \<open>
  The body of the inner \<open>try\<close>: without credentials it returns early and leaves the
  table alone; a fault raises before anything is committed.
\<close>

definition update_sql_database :: "sql_env \<Rightarrow> string \<Rightarrow> attr \<Rightarrow> sql_job list \<Rightarrow> exn + sql_job list" where
  "update_sql_database env job_id result jobs =
     (case database_url env of
        None \<Rightarrow> Inr jobs
      | Some url \<Rightarrow>
          (case sql_fault env of
             Some e \<Rightarrow> Inl e
           | None \<Rightarrow> Inr (set_done job_id result jobs)))"

section \<open>Pipeline Orchestrator (process\_job\_s3)\<close>

record world =
  progress_store :: tracker
  bucket :: "string \<rightharpoonup> s3_object"
  sql_jobs :: "sql_job list"

text \<open>
  \<open>setup_fault\<close> is an exception of what runs before the \<open>try\<close>: the imports, the
  construction of \<open>DynamoDBService()\<close> and of the temporary directory.
\<close>

record env =
  ddb :: ddb_env
  s3 :: s3_env
  media :: media_env
  sql :: sql_env
  s3_config :: S3Config
  dynamodb_service :: DynamoDBService
  setup_fault :: "exn option"
  temp_dir :: string

text \<open>Sequencing of statements that may raise: the first exception ends the block.\<close>

definition then_do :: "('s \<Rightarrow> (exn + 'a) \<times> 's) \<Rightarrow> ('a \<Rightarrow> 's \<Rightarrow> (exn + 'b) \<times> 's)
    \<Rightarrow> 's \<Rightarrow> (exn + 'b) \<times> 's" where
  "then_do m f s = (case m s of (Inl e, s') \<Rightarrow> (Inl e, s') | (Inr x, s') \<Rightarrow> f x s')"

definition on_tracker :: "(tracker \<Rightarrow> (exn + 'a) \<times> tracker) \<Rightarrow> world \<Rightarrow> (exn + 'a) \<times> world" where
  "on_tracker f w = (case f (progress_store w) of (r, tr) \<Rightarrow> (r, w\<lparr>progress_store := tr\<rparr>))"

definition on_bucket :: "((string \<rightharpoonup> s3_object) \<Rightarrow> (exn + 'a) \<times> (string \<rightharpoonup> s3_object))
    \<Rightarrow> world \<Rightarrow> (exn + 'a) \<times> world" where
  "on_bucket f w = (case f (bucket w) of (r, b) \<Rightarrow> (r, w\<lparr>bucket := b\<rparr>))"

definition pure_step :: "exn + 'a \<Rightarrow> 's \<Rightarrow> (exn + 'a) \<times> 's" where
  "pure_step r s = (r, s)"

definition str_value :: "attr \<Rightarrow> string" where
  "str_value v = (case v of S s \<Rightarrow> s | _ \<Rightarrow> [])"

definition subscript :: "attr \<Rightarrow> string \<Rightarrow> attr" where
  "subscript v k = (case v of M d \<Rightarrow> dict_get d k | _ \<Rightarrow> Null)"

text \<open>Open a local file, upload it under the key, and keep the URL of the answer.\<close>

definition upload_local :: "env \<Rightarrow> string \<Rightarrow> string \<Rightarrow> string
    \<Rightarrow> (string \<rightharpoonup> s3_object) \<Rightarrow> (exn + attr) \<times> (string \<rightharpoonup> s3_object)" where
  "upload_local env path key ctype b =
     (case read_bytes (media env) path of
        Inl e \<Rightarrow> (Inl e, b)
      | Inr data \<Rightarrow>
          (case upload_file (s3 env) (s3_config env) data key (Some ctype) b of
             (Inl e, b') \<Rightarrow> (Inl e, b')
           | (Inr upload_result, b') \<Rightarrow> (Inr (subscript upload_result ''url''), b')))"

fun upload_frames :: "env \<Rightarrow> string \<Rightarrow> string \<Rightarrow> string list \<Rightarrow> attr list
    \<Rightarrow> (string \<rightharpoonup> s3_object) \<Rightarrow> (exn + attr list) \<times> (string \<rightharpoonup> s3_object)" where
  "upload_frames env job_id frames_dir [] acc b = (Inr acc, b)"
| "upload_frames env job_id frames_dir (frame_file # rest) acc b =
     (let frame_key = get_temp_key (s3_config env) job_id (''frames/'' @ frame_file)
      in case upload_local env (path_join frames_dir frame_file) frame_key ''image/jpeg'' b of
           (Inl e, b') \<Rightarrow> (Inl e, b')
         | (Inr url, b') \<Rightarrow>
             upload_frames env job_id frames_dir rest
               (acc @ [M [(''filename'', S frame_file), (''key'', S frame_key), (''url'', url)]])
               b')"

definition upload_transcoded :: "env \<Rightarrow> string \<Rightarrow> (string \<times> attr) list \<Rightarrow> (string \<times> attr) list
    \<Rightarrow> (string \<rightharpoonup> s3_object) \<Rightarrow> (exn + (string \<times> attr) list) \<times> (string \<rightharpoonup> s3_object)" where
  "upload_transcoded env job_id result s3_outputs b =
     (if truthy (dict_get result ''transcoded'')
         \<and> path_exists (media env)
              (path_join (temp_dir env) (str_value (dict_get result ''transcoded'')))
      then (let transcoded_key = get_transcoded_key (s3_config env) job_id
                                   (str_value (dict_get result ''transcoded''))
            in case upload_local env
                      (path_join (temp_dir env) (str_value (dict_get result ''transcoded'')))
                      transcoded_key ''video/mp4'' b of
                 (Inl e, b') \<Rightarrow> (Inl e, b')
               | (Inr url, b') \<Rightarrow>
                   (Inr (dict_set s3_outputs ''transcoded''
                           (M [(''key'', S transcoded_key), (''url'', url)])), b'))
      else (Inr s3_outputs, b))"

definition upload_thumbnail :: "env \<Rightarrow> string \<Rightarrow> (string \<times> attr) list \<Rightarrow> (string \<times> attr) list
    \<Rightarrow> (string \<rightharpoonup> s3_object) \<Rightarrow> (exn + (string \<times> attr) list) \<times> (string \<rightharpoonup> s3_object)" where
  "upload_thumbnail env job_id result s3_outputs b =
     (if truthy (dict_get result ''thumbnail'')
         \<and> path_exists (media env)
              (path_join (temp_dir env) (str_value (dict_get result ''thumbnail'')))
      then (let thumbnail_key = get_thumbnail_key (s3_config env) job_id
                                  (str_value (dict_get result ''thumbnail''))
            in case upload_local env
                      (path_join (temp_dir env) (str_value (dict_get result ''thumbnail'')))
                      thumbnail_key ''image/jpeg'' b of
                 (Inl e, b') \<Rightarrow> (Inl e, b')
               | (Inr url, b') \<Rightarrow>
                   (Inr (dict_set s3_outputs ''thumbnail''
                           (M [(''key'', S thumbnail_key), (''url'', url)])), b'))
      else (Inr s3_outputs, b))"

definition upload_frame_set :: "env \<Rightarrow> string \<Rightarrow> (string \<times> attr) list \<Rightarrow> (string \<times> attr) list
    \<Rightarrow> (string \<rightharpoonup> s3_object) \<Rightarrow> (exn + (string \<times> attr) list) \<times> (string \<rightharpoonup> s3_object)" where
  "upload_frame_set env job_id result s3_outputs b =
     (let frames_dir = dict_get result ''frames_dir''
      in if truthy frames_dir \<and> path_exists (media env) (str_value frames_dir)
         then (case listdir (media env) (str_value frames_dir) of
                 Inl e \<Rightarrow> (Inl e, b)
               | Inr names \<Rightarrow>
                   (case upload_frames env job_id (str_value frames_dir)
                           (take 5 (filter is_jpg names)) [] b of
                      (Inl e, b') \<Rightarrow> (Inl e, b')
                    | (Inr frames, b') \<Rightarrow> (Inr (dict_set s3_outputs ''frames'' (L frames)), b')))
         else (Inr s3_outputs, b))"

text \<open>
  The upload stage: transcoded video, thumbnail, the first five frames, then
  \<open>result.json\<close> with the outputs added to the result.
\<close>

definition upload_outputs :: "env \<Rightarrow> string \<Rightarrow> (string \<times> attr) list
    \<Rightarrow> (string \<rightharpoonup> s3_object) \<Rightarrow> (exn + (string \<times> attr) list) \<times> (string \<rightharpoonup> s3_object)" where
  "upload_outputs env job_id result =
     then_do (upload_transcoded env job_id result []) (\<lambda>out1.
     then_do (upload_thumbnail env job_id result out1) (\<lambda>out2.
     then_do (upload_frame_set env job_id result out2) (\<lambda>s3_outputs.
     then_do (upload_file (s3 env) (s3_config env)
                (json_dumps (media env) (M (dict_set result ''s3_outputs'' (M s3_outputs))))
                (get_temp_key (s3_config env) job_id ''result.json'')
                (Some ''application/json''))
       (\<lambda>_. pure_step (Inr (dict_set result ''s3_outputs'' (M s3_outputs)))))))"

definition download_input :: "env \<Rightarrow> string \<Rightarrow> world \<Rightarrow> (exn + string) \<times> world" where
  "download_input env s3_input_key w =
     (let input_video_path = path_join (temp_dir env) ''input_video.mp4''
      in case download_file (s3 env) s3_input_key (bucket w) of
           Inl e \<Rightarrow> (Inl e, w)
         | Inr video_data \<Rightarrow>
             (case write_fault (media env) input_video_path of
                Some e \<Rightarrow> (Inl e, w)
              | None \<Rightarrow> (Inr input_video_path, w)))"

definition progress :: "env \<Rightarrow> string \<Rightarrow> int \<Rightarrow> string \<Rightarrow> string \<Rightarrow> world \<Rightarrow> (exn + bool) \<times> world" where
  "progress env job_id percent current_step step_status =
     on_tracker (update_job_progress (ddb env) (dynamodb_service env) job_id percent
                   current_step step_status Null)"

text \<open>
  The SQL update is wrapped in \<open>try ... except Exception\<close>: a failure is printed and
  the result is returned all the same.
\<close>

definition sql_finalize :: "env \<Rightarrow> string \<Rightarrow> attr \<Rightarrow> world \<Rightarrow> world" where
  "sql_finalize env job_id result w =
     (case update_sql_database (sql env) job_id result (sql_jobs w) of
        Inl e \<Rightarrow> w
      | Inr jobs \<Rightarrow> w\<lparr>sql_jobs := jobs\<rparr>)"

text \<open>The block under \<open>try\<close>.\<close>

definition try_block :: "env \<Rightarrow> string \<Rightarrow> string \<Rightarrow> int \<Rightarrow> world
    \<Rightarrow> (exn + (string \<times> attr) list) \<times> world" where
  "try_block env s3_input_key job_id fps =
     then_do (progress env job_id 20 ''download'' ''Downloading video from S3...'') (\<lambda>_.
     then_do (download_input env s3_input_key) (\<lambda>input_video_path.
     then_do (progress env job_id 40 ''thumbnail'' ''Extracting thumbnail...'') (\<lambda>_.
     then_do (pure_step (process_job (media env) input_video_path (temp_dir env) fps)) (\<lambda>result.
     then_do (progress env job_id 60 ''transcode'' ''Transcoding video...'') (\<lambda>_.
     then_do (progress env job_id 80 ''ml_prediction'' ''Running ML predictions...'') (\<lambda>_.
     then_do (on_bucket (upload_outputs env job_id result)) (\<lambda>result'.
     then_do (progress env job_id 100 ''complete'' ''Job completed successfully!'') (\<lambda>_.
     then_do (on_tracker (complete_job (ddb env) (dynamodb_service env) job_id (M result')))
       (\<lambda>_ w. (Inr result', sql_finalize env job_id (M result') w))))))))))"

text \<open>
  The handler of \<open>except Exception as e\<close>: a progress update with percent 0 and step
  \<open>error\<close>, then \<open>fail_job\<close>, both under a second \<open>try ... except Exception\<close> that only
  prints.
\<close>

definition error_handler :: "env \<Rightarrow> string \<Rightarrow> exn \<Rightarrow> world \<Rightarrow> world" where
  "error_handler env job_id e w =
     snd (then_do (progress env job_id 0 ''error'' (''Job failed: '' @ exn_str e))
            (\<lambda>_. on_tracker (fail_job (ddb env) (dynamodb_service env) job_id (exn_str e))) w)"

definition process_job_s3 :: "env \<Rightarrow> string \<Rightarrow> string \<Rightarrow> int \<Rightarrow> world \<Rightarrow> (exn + attr) \<times> world" where
  "process_job_s3 env s3_input_key job_id fps w =
     (case setup_fault env of
        Some e \<Rightarrow> (Inl e, w)
      | None \<Rightarrow>
          (case try_block env s3_input_key job_id fps w of
             (Inr result, w') \<Rightarrow> (Inr (M result), w')
           | (Inl e, w') \<Rightarrow>
               (Inr (M [(''error'', S (exn_str e)),
                        (''trace'', S (format_exc (media env) e)),
                        (''s3_input_key'', S s3_input_key)]),
                error_handler env job_id e w')))"

section \<open>Queue Consumer (worker.py, sqs\_service.py)\<close>

record message =
  Body :: string
  ReceiptHandle :: string

text \<open>
  A parsed message body: a JSON object, whose values are strings as
  \<open>send_job_message\<close> writes them, or some other JSON value.
\<close>

datatype json_body = JObject "(string \<times> string) list" | JOther

record worker_env =
  pipeline :: env
  json_loads :: "string \<Rightarrow> exn + json_body"
  sqs_delete_fault :: "string \<Rightarrow> exn option"

datatype event =
    ProcessCalled string string
  | ProcessReturned string
  | DeleteCalled string
  | ErrorPrinted exn

record worker_state =
  events :: "event list"
  deleted :: "string list"
  the_world :: world

text \<open>\<open>body['job_id']\<close>: \<open>KeyError\<close> on a missing key, \<open>TypeError\<close> on a non-object.\<close>

definition body_item :: "json_body \<Rightarrow> string \<Rightarrow> exn + string" where
  "body_item b k =
     (case b of
        JOther \<Rightarrow> Inl (Exn TypeError ''object is not subscriptable'')
      | JObject d \<Rightarrow>
          (case map_of d k of
             None \<Rightarrow> Inl (Exn KeyError (CHR 0x27 # k @ [CHR 0x27]))
           | Some v \<Rightarrow> Inr v))"

text \<open>
  The statements under \<open>try\<close> in the \<open>for\<close> loop: what they raise (if anything) and the
  state they leave.
\<close>

definition try_message :: "worker_env \<Rightarrow> message \<Rightarrow> worker_state \<Rightarrow> exn option \<times> worker_state" where
  "try_message env msg st =
     (case json_loads env (Body msg) of
        Inl e \<Rightarrow> (Some e, st)
      | Inr parsed \<Rightarrow>
     (case body_item parsed ''job_id'' of
        Inl e \<Rightarrow> (Some e, st)
      | Inr job_id \<Rightarrow>
     (case body_item parsed ''s3_key'' of
        Inl e \<Rightarrow> (Some e, st)
      | Inr s3_key \<Rightarrow>
     (let st1 = st\<lparr>events := events st @ [ProcessCalled s3_key job_id]\<rparr>
      in case process_job_s3 (pipeline env) s3_key job_id 1 (the_world st1) of
        (Inl e, w') \<Rightarrow> (Some e, st1\<lparr>the_world := w'\<rparr>)
      | (Inr result, w') \<Rightarrow>
     (let st2 = st1\<lparr>the_world := w', events := events st1 @ [ProcessReturned job_id]\<rparr>;
          st3 = st2\<lparr>events := events st2 @ [DeleteCalled (ReceiptHandle msg)]\<rparr>
      in case sqs_delete_fault env (ReceiptHandle msg) of
        Some e \<Rightarrow> (Some e, st3)
      | None \<Rightarrow> (None, st3\<lparr>deleted := deleted st3 @ [ReceiptHandle msg]\<rparr>))))))"

definition handle_message :: "worker_env \<Rightarrow> message \<Rightarrow> worker_state \<Rightarrow> worker_state" where
  "handle_message env msg st =
     (case try_message env msg st of
        (None, st') \<Rightarrow> st'
      | (Some e, st') \<Rightarrow> st'\<lparr>events := events st' @ [ErrorPrinted e]\<rparr>)"

fun for_messages :: "worker_env \<Rightarrow> message list \<Rightarrow> worker_state \<Rightarrow> worker_state" where
  "for_messages env [] st = st"
| "for_messages env (msg # rest) st = for_messages env rest (handle_message env msg st)"

text \<open>
  \<open>while True\<close>: the loop runs as long as the queue answers. Its runs are given by the
  answers of the successive \<open>receive_messages\<close> calls (a batch, or the exception the
  call raises, which nothing catches); the list ends where the observation ends.
\<close>

fun main_loop :: "worker_env \<Rightarrow> (exn + message list) list \<Rightarrow> worker_state \<Rightarrow> exn + worker_state" where
  "main_loop env [] st = Inr st"
| "main_loop env (Inl e # polls) st = Inl e"
| "main_loop env (Inr messages # polls) st = main_loop env polls (for_messages env messages st)"

section \<open>Sequences of Progress Tracker calls\<close>

text \<open>
  The three writing operations of the tracker as data, so that statements can range over
  every sequence of them; a call's return value (or exception) is dropped, its effect on
  the table kept.
\<close>

datatype tracker_call =
    Update string int string string attr
  | Complete string attr
  | Fail string string

fun run_call :: "ddb_env \<Rightarrow> DynamoDBService \<Rightarrow> tracker_call \<Rightarrow> tracker \<Rightarrow> tracker" where
  "run_call env self (Update job_id percent current_step step_status result) tr =
     snd (update_job_progress env self job_id percent current_step step_status result tr)"
| "run_call env self (Complete job_id result) tr = snd (complete_job env self job_id result tr)"
| "run_call env self (Fail job_id error_message) tr =
     snd (fail_job env self job_id error_message tr)"

fun run_calls :: "ddb_env \<Rightarrow> DynamoDBService \<Rightarrow> tracker_call list \<Rightarrow> tracker \<Rightarrow> tracker" where
  "run_calls env self [] tr = tr"
| "run_calls env self (c # cs) tr = run_calls env self cs (run_call env self c tr)"

section \<open>Reading the request log and the outcome\<close>

text \<open>The percent a request writes, if it writes one.\<close>

definition req_progress :: "ddb_request \<Rightarrow> int option" where
  "req_progress rq =
     (case map_of (req_sets rq) ''progress'' of Some (N n) \<Rightarrow> Some n | _ \<Rightarrow> None)"

definition progress_writes :: "ddb_request list \<Rightarrow> int list" where
  "progress_writes reqs = List.map_filter req_progress reqs"

text \<open>
  The dictionary \<open>process_job_s3\<close> returns from its handler has the key \<open>error\<close>; the
  result of a run that reached \<open>return result\<close> has not.
\<close>

definition is_failure_outcome :: "attr \<Rightarrow> bool" where
  "is_failure_outcome r = (case r of M d \<Rightarrow> map_of d ''error'' \<noteq> None | _ \<Rightarrow> False)"

text \<open>
  Between two worlds only the tracker was written to, under the one key, and no request
  the table accepted set \<open>status\<close>: the relational table is as before and the log grew
  by such requests only.
\<close>

definition tracker_only :: "string \<times> string \<Rightarrow> world \<Rightarrow> world \<Rightarrow> bool" where
  "tracker_only k a b \<longleftrightarrow>
     sql_jobs b = sql_jobs a
     \<and> (\<exists>new. requests (progress_store b) = requests (progress_store a) @ new
           \<and> (\<forall>rq \<in> set new. req_key rq = k
                  \<and> (req_applied rq \<longrightarrow> map_of (req_sets rq) ''status'' = None)))"

section \<open>Example values\<close>

definition ex_ddb_env :: ddb_env where
  "ex_ddb_env = \<lparr>ddb_fault = (\<lambda>n. None), utcnow_iso = (\<lambda>n. ''2025-01-01T00:00:00'')\<rparr>"

definition ex_service :: DynamoDBService where
  "ex_service = \<lparr>qut_username = ''n11086840@qut.edu.au''\<rparr>"

definition empty_tracker :: tracker where
  "empty_tracker = \<lparr>table = Map.empty, requests = [], ticks = 0\<rparr>"

definition ex_tracker :: tracker where
  "ex_tracker =
     snd (create_job_progress ex_ddb_env ex_service ''job-1'' ''video.mp4'' ''alice''
            empty_tracker)"

definition ex_scores :: "string \<Rightarrow> nat \<Rightarrow> exn + (nat \<times> real) list" where
  "ex_scores path topk =
     (if path = ''/tmp/job/frames/frame_00002.jpg''
      then Inl (Exn OSError ''cannot identify image file'')
      else Inr [(7, 1 / 2)])"

definition ex_media_env :: media_env where
  "ex_media_env =
     \<lparr>which = (\<lambda>name. Some ''/usr/bin/ffmpeg''),
      subprocess_run = (\<lambda>cmd. Inr 0),
      called_process_error_str = (\<lambda>cmd status. ''Command returned non-zero exit status''),
      makedirs_fault = (\<lambda>path. None),
      listdir = (\<lambda>path. Inr [''frame_00002.jpg'', ''notes.txt'', ''frame_00003.JPG'',
                              ''frame_00001.jpg'']),
      path_exists = (\<lambda>path. True),
      read_bytes = (\<lambda>path. Inr path),
      write_fault = (\<lambda>path. None),
      ensure_model_fault = None,
      labels_map = None,
      topk_scores = ex_scores,
      save_thumbnail = (\<lambda>src dst. None),
      format_exc = exn_str,
      json_dumps = (\<lambda>v. ''{}'')\<rparr>"

definition ex_s3_env :: s3_env where
  "ex_s3_env =
     \<lparr>s3_put_fault = (\<lambda>key. None), s3_get_fault = (\<lambda>key. None), guess_type = (\<lambda>key. None)\<rparr>"

definition ex_s3_config :: S3Config where
  "ex_s3_config =
     \<lparr>region = ''ap-southeast-2'',
      bucket_name = ''n11086840-video-ml-transcode-bucket'',
      upload_prefix = ''uploads/'',
      transcoded_prefix = ''transcoded/'',
      thumbnails_prefix = ''thumbnails/'',
      temp_prefix = ''temp/''\<rparr>"

definition ex_sql_env :: sql_env where
  "ex_sql_env =
     \<lparr>env_DATABASE_URL = Some ''postgresql+psycopg2://u:p@db:5432/cohort_2025'',
      secret = Inl (Exn OtherException ''secret not available''),
      rds_host = ''database-1-instance-1.ce2haupt2cta.ap-southeast-2.rds.amazonaws.com'',
      rds_port = ''5432'',
      rds_db_name = ''cohort_2025'',
      rds_username = [],
      rds_password = [],
      sql_fault = None\<rparr>"

definition ex_env :: env where
  "ex_env =
     \<lparr>ddb = ex_ddb_env, s3 = ex_s3_env, media = ex_media_env, sql = ex_sql_env,
      s3_config = ex_s3_config, dynamodb_service = ex_service, setup_fault = None,
      temp_dir = ''/tmp/job''\<rparr>"

definition ex_world :: world where
  "ex_world =
     \<lparr>progress_store = ex_tracker,
      bucket = [''uploads/abc_video.mp4'' \<mapsto>
                  \<lparr>body = ''video-bytes'', content_type = ''video/mp4'',
                   server_side_encryption = ''AES256''\<rparr>],
      sql_jobs = [\<lparr>sj_job_id = ''job-1'', sj_status = ''queued'', sj_result = Null\<rparr>]\<rparr>"

text \<open>The same surroundings without \<open>ffmpeg\<close> on the path.\<close>

definition ex_env_no_ffmpeg :: env where
  "ex_env_no_ffmpeg = ex_env\<lparr>media := ex_media_env\<lparr>which := (\<lambda>name. None)\<rparr>\<rparr>"

text \<open>Without \<open>ffmpeg\<close>, and with a table that cannot be reached at all.\<close>

definition ex_env_ddb_down :: env where
  "ex_env_ddb_down =
     ex_env_no_ffmpeg\<lparr>ddb := ex_ddb_env\<lparr>ddb_fault :=
       (\<lambda>n. Some (Exn OtherException ''Could not connect to the endpoint URL''))\<rparr>\<rparr>"

section \<open>Properties of the Progress Tracker\<close>

lemma update_item_other_key:
  "update_item env key sets tr = (r, tr') \<Longrightarrow> k \<noteq> key \<Longrightarrow> table tr' k = table tr k"
  by (auto simp: update_item_def split: option.splits)

lemma update_item_attr:
  assumes "update_item env key sets tr = (r, tr')" and "table tr key = Some it"
  shows "\<exists>it'. table tr' key = Some it'
           \<and> (\<forall>a. a \<notin> fst ` set sets \<longrightarrow> it' a = it a)
           \<and> (r = None \<longrightarrow> (\<forall>a v. map_of sets a = Some v \<longrightarrow> it' a = Some v))
           \<and> (r \<noteq> None \<longrightarrow> it' = it)"
  using assms
  by (auto simp: update_item_def map_add_def dom_map_of_conv_image_fst[symmetric] domIff
      split: option.splits)

lemma except_ClientError_snd: "snd (except_ClientError r) = snd r"
  by (simp add: except_ClientError_def split: option.splits)

lemma except_ClientError_True: "fst (except_ClientError r) = Inr True \<longleftrightarrow> fst r = None"
  by (simp add: except_ClientError_def split: option.splits)

text \<open>
  Claim C8. For every existing progress record and every call
  \<open>update_job_progress(job_id, progress, current_step, result)\<close>, only the supplied
  fields change (\<open>progress\<close>, \<open>current_step\<close>, \<open>updated_at\<close>, and \<open>ml_result\<close> when
  a result is given); every attribute the update does not mention, among them \<open>status\<close>,
  \<open>steps\<close>, \<open>total_steps\<close>, \<open>created_at\<close>, \<open>video_filename\<close>, \<open>owner\<close> and
  \<open>error_message\<close>, keeps its previous value, and so does every other record of the
  table. An update the table refuses changes nothing.
\<close>

theorem update_job_progress_frame:
  assumes "table tr (qut_username self, job_id) = Some it"
    and "update_job_progress env self job_id p step st result tr = (r, tr')"
  shows "(\<exists>it'. table tr' (qut_username self, job_id) = Some it'
           \<and> (\<forall>a. a \<notin> {''progress'', ''current_step'', ''updated_at'', ''ml_result''}
                  \<longrightarrow> it' a = it a)
           \<and> (\<forall>a \<in> {''status'', ''steps'', ''total_steps'', ''created_at'', ''video_filename'',
                       ''owner'', ''error_message''}. it' a = it a)
           \<and> (\<not> truthy result \<longrightarrow> it' ''ml_result'' = it ''ml_result'')
           \<and> (r = Inr True \<longrightarrow> it' ''progress'' = Some (N p) \<and> it' ''current_step'' = Some (S step)
                  \<and> (truthy result \<longrightarrow> it' ''ml_result'' = Some (convert_floats_to_decimal result)))
           \<and> (r \<noteq> Inr True \<longrightarrow> it' = it))
         \<and> (\<forall>k. k \<noteq> (qut_username self, job_id) \<longrightarrow> table tr' k = table tr k)"
proof -
  define tr1 where "tr1 = snd (utcnow env tr)"
  define now where "now = fst (utcnow env tr)"
  define sets where "sets = [(''progress'', N p), (''current_step'', S step), (''updated_at'', S now)]
                 @ (if truthy result then [(''ml_result'', convert_floats_to_decimal result)] else [])"
  obtain f tr2 where u: "update_item env (qut_username self, job_id) sets tr1 = (f, tr2)"
    by (cases "update_item env (qut_username self, job_id) sets tr1") auto
  have t1: "table tr1 = table tr" by (simp add: tr1_def utcnow_def)
  have "update_job_progress env self job_id p step st result tr
          = except_ClientError (update_item env (qut_username self, job_id) sets tr1)"
    unfolding update_job_progress_def sets_def now_def tr1_def
    by (simp add: split_beta Let_def)
  then have eq: "update_job_progress env self job_id p step st result tr = except_ClientError (f, tr2)"
    by (simp only: u)
  have e2: "except_ClientError (f, tr2) = (r, tr')"
    using eq assms(2) by simp
  have tr': "tr' = tr2"
    using except_ClientError_snd[of "(f, tr2)"] e2 by simp
  have r: "r = fst (except_ClientError (f, tr2))"
    using e2 by simp
  have rT: "r = Inr True \<longleftrightarrow> f = None"
    using except_ClientError_True[of "(f, tr2)"] r by simp
  from update_item_attr[OF u] assms(1) t1 obtain it' where
    it': "table tr2 (qut_username self, job_id) = Some it'"
      "\<forall>a. a \<notin> fst ` set sets \<longrightarrow> it' a = it a"
      "f = None \<longrightarrow> (\<forall>a v. map_of sets a = Some v \<longrightarrow> it' a = Some v)"
      "f \<noteq> None \<longrightarrow> it' = it" by auto
  have other: "\<forall>k. k \<noteq> (qut_username self, job_id) \<longrightarrow> table tr' k = table tr k"
    using update_item_other_key[OF u] t1 tr' by simp
  define W where "W = {''progress'', ''current_step'', ''updated_at'', ''ml_result''}"
  have names: "fst ` set sets \<subseteq> W"
    by (auto simp: sets_def W_def)
  have no_ml: "\<not> truthy result \<Longrightarrow> ''ml_result'' \<notin> fst ` set sets"
    by (simp add: sets_def)
  have vals: "map_of sets ''progress'' = Some (N p)" "map_of sets ''current_step'' = Some (S step)"
    "truthy result \<Longrightarrow> map_of sets ''ml_result'' = Some (convert_floats_to_decimal result)"
    by (simp_all add: sets_def)
  have "\<forall>a. a \<notin> W \<longrightarrow> it' a = it a"
    using it'(2) names by blast
  then have frame: "\<forall>a. a \<notin> {''progress'', ''current_step'', ''updated_at'', ''ml_result''}
                  \<longrightarrow> it' a = it a"
    by (simp only: W_def)
  have listed: "\<forall>a \<in> {''status'', ''steps'', ''total_steps'', ''created_at'', ''video_filename'',
                       ''owner'', ''error_message''}. it' a = it a"
    using frame by simp
  have ml: "\<not> truthy result \<longrightarrow> it' ''ml_result'' = it ''ml_result''"
    using it'(2) no_ml by (cases "truthy result") simp_all
  have written: "r = Inr True \<longrightarrow> it' ''progress'' = Some (N p) \<and> it' ''current_step'' = Some (S step)
                  \<and> (truthy result \<longrightarrow> it' ''ml_result'' = Some (convert_floats_to_decimal result))"
    using it'(3) vals rT by blast
  have unchanged: "r \<noteq> Inr True \<longrightarrow> it' = it"
    using it'(4) rT by blast
  have here: "table tr' (qut_username self, job_id) = Some it'"
    using it'(1) by (simp only: tr')
  show ?thesis
    by (rule conjI, rule exI[of _ it'], intro conjI)
       (rule here, rule frame, rule listed, rule ml, rule written, rule unchanged, rule other)
qed


lemma utcnow_table: "table (snd (utcnow env tr)) = table tr"
  by (simp add: utcnow_def)

lemma update_item_keeps:
  assumes "table tr k = Some it" and "it a = v" and "a \<notin> fst ` set sets"
  shows "\<exists>it'. table (snd (update_item env key sets tr)) k = Some it' \<and> it' a = v"
proof (cases "k = key")
  case True
  obtain r tr' where u: "update_item env key sets tr = (r, tr')"
    by (cases "update_item env key sets tr") auto
  from update_item_attr[OF u] assms True show ?thesis
    by (auto simp: u)
next
  case False
  obtain r tr' where u: "update_item env key sets tr = (r, tr')"
    by (cases "update_item env key sets tr") auto
  from update_item_other_key[OF u False] assms show ?thesis
    by (simp add: u)
qed

lemma update_job_progress_snd:
  "snd (update_job_progress env self job_id p step st result tr) =
   snd (update_item env (qut_username self, job_id)
          ([(''progress'', N p), (''current_step'', S step),
            (''updated_at'', S (fst (utcnow env tr)))]
           @ (if truthy result then [(''ml_result'', convert_floats_to_decimal result)] else []))
          (snd (utcnow env tr)))"
  by (simp add: update_job_progress_def split_beta Let_def except_ClientError_snd)

lemma complete_job_snd:
  "snd (complete_job env self job_id result tr) =
   snd (update_item env (qut_username self, job_id)
          [(''status'', S ''completed''), (''progress'', N 100),
           (''ml_result'', convert_floats_to_decimal result),
           (''updated_at'', S (fst (utcnow env tr)))]
          (snd (utcnow env tr)))"
  by (simp add: complete_job_def split_beta Let_def except_ClientError_snd)

lemma fail_job_snd:
  "snd (fail_job env self job_id msg tr) =
   snd (update_item env (qut_username self, job_id)
          [(''status'', S ''failed''), (''error_message'', S msg),
           (''updated_at'', S (fst (utcnow env tr)))]
          (snd (utcnow env tr)))"
  by (simp add: fail_job_def split_beta Let_def except_ClientError_snd)

lemma run_call_keeps_steps:
  assumes "table tr k = Some it" and "it ''steps'' = v"
  shows "\<exists>it'. table (run_call env self c tr) k = Some it' \<and> it' ''steps'' = v"
proof (cases c)
  case (Update j p step st r)
  have t1: "table (snd (utcnow env tr)) k = Some it"
    using assms(1) by (simp add: utcnow_table)
  have "''steps'' \<notin> fst ` set ([(''progress'', N p), (''current_step'', S step),
            (''updated_at'', S (fst (utcnow env tr)))]
           @ (if truthy r then [(''ml_result'', convert_floats_to_decimal r)] else []))"
    by (cases "truthy r") simp_all
  from update_item_keeps[OF t1 assms(2) this]
  show ?thesis by (simp add: Update update_job_progress_snd utcnow_table)
next
  case (Complete j r)
  have t1: "table (snd (utcnow env tr)) k = Some it"
    using assms(1) by (simp add: utcnow_table)
  have "''steps'' \<notin> fst ` set [(''status'', S ''completed''), (''progress'', N 100),
           (''ml_result'', convert_floats_to_decimal r),
           (''updated_at'', S (fst (utcnow env tr)))]"
    by simp
  from update_item_keeps[OF t1 assms(2) this]
  show ?thesis by (simp add: Complete complete_job_snd utcnow_table)
next
  case (Fail j m)
  have t1: "table (snd (utcnow env tr)) k = Some it"
    using assms(1) by (simp add: utcnow_table)
  have "''steps'' \<notin> fst ` set [(''status'', S ''failed''), (''error_message'', S m),
           (''updated_at'', S (fst (utcnow env tr)))]"
    by simp
  from update_item_keeps[OF t1 assms(2) this]
  show ?thesis by (simp add: Fail fail_job_snd utcnow_table)
qed

lemma run_calls_keep_steps:
  "table tr k = Some it \<Longrightarrow> it ''steps'' = v
   \<Longrightarrow> \<exists>it'. table (run_calls env self cs tr) k = Some it' \<and> it' ''steps'' = v"
proof (induction cs arbitrary: tr it)
  case Nil
  then show ?case by simp
next
  case (Cons c cs)
  from run_call_keeps_steps[OF Cons.prems, of env self c]
  obtain it1 where "table (run_call env self c tr) k = Some it1" "it1 ''steps'' = v" by blast
  from Cons.IH[OF this] show ?case by simp
qed

lemma create_job_progress_item:
  assumes "create_job_progress env self job_id fn owner tr0 = (Inr True, tr)"
  shows "\<exists>it. table tr (qut_username self, job_id) = Some it
           \<and> it ''steps'' = Some initial_steps \<and> it ''status'' = Some (S ''queued'')
           \<and> it ''progress'' = Some (N 0)"
  using assms
  by (auto simp: create_job_progress_def put_item_def except_ClientError_def split_beta Let_def
      split: option.splits if_splits)

lemma initial_steps_pending:
  "\<forall>i \<in> {''1'', ''2'', ''3'', ''4'', ''5''}.
     subscript (subscript initial_steps i) ''current_status'' = S ''pending''"
  by (simp add: initial_steps_def subscript_def dict_get_def)

text \<open>
  Claim C10. The step table written at creation, five steps each \<open>pending\<close>, is never
  modified by a later tracker operation: after any sequence of \<open>update_job_progress\<close>,
  \<open>complete_job\<close> and \<open>fail_job\<close> calls (on this job or another, accepted by the table
  or not) the record's \<open>steps\<close> attribute is still the initial table, so every step's
  \<open>current_status\<close> still reads \<open>pending\<close>, also after a terminal write.
\<close>

theorem steps_never_modified:
  assumes "create_job_progress env self job_id video_filename owner tr0 = (Inr True, tr)"
  shows "\<exists>it steps. table (run_calls env self calls tr) (qut_username self, job_id) = Some it
           \<and> it ''steps'' = Some steps \<and> steps = initial_steps
           \<and> (\<forall>i \<in> {''1'', ''2'', ''3'', ''4'', ''5''}.
                 subscript (subscript steps i) ''current_status'' = S ''pending'')"
proof -
  from create_job_progress_item[OF assms] obtain it0 where
    "table tr (qut_username self, job_id) = Some it0" "it0 ''steps'' = Some initial_steps"
    by blast
  from run_calls_keep_steps[OF this, of env self calls] obtain it where
    "table (run_calls env self calls tr) (qut_username self, job_id) = Some it"
    "it ''steps'' = Some initial_steps" by blast
  with initial_steps_pending show ?thesis by blast
qed

lemma ex_tracker_created:
  "create_job_progress ex_ddb_env ex_service ''job-1'' ''video.mp4'' ''alice'' empty_tracker
     = (Inr True, ex_tracker)"
  by (simp add: ex_tracker_def create_job_progress_def put_item_def except_ClientError_def
      split_beta Let_def ex_ddb_env_def utcnow_def empty_tracker_def)

theorem steps_never_modified_witness:
  "\<exists>it steps. table (run_calls ex_ddb_env ex_service
                  [Update ''job-1'' 20 ''download'' ''completed'' Null,
                   Fail ''job-1'' ''ffmpeg not found in PATH'',
                   Complete ''job-1'' (M [(''transcoded'', Null)])] ex_tracker)
            (qut_username ex_service, ''job-1'') = Some it
        \<and> it ''steps'' = Some steps \<and> steps = initial_steps
        \<and> (\<forall>i \<in> {''1'', ''2'', ''3'', ''4'', ''5''}.
              subscript (subscript steps i) ''current_status'' = S ''pending'')"
  by (rule steps_never_modified[OF ex_tracker_created])


theorem update_job_progress_frame_witness:
  "\<exists>it'. table (snd (update_job_progress ex_ddb_env ex_service ''job-1'' 20 ''download''
                        ''completed'' Null ex_tracker))
             (qut_username ex_service, ''job-1'') = Some it'
         \<and> it' ''status'' = Some (S ''queued'') \<and> it' ''steps'' = Some initial_steps
         \<and> it' ''progress'' = Some (N 20) \<and> it' ''current_step'' = Some (S ''download'')"
proof -
  define res where "res = update_job_progress ex_ddb_env ex_service ''job-1'' 20 ''download''
                        ''completed'' Null ex_tracker"
  from create_job_progress_item[OF ex_tracker_created] obtain it0 where
    it0: "table ex_tracker (qut_username ex_service, ''job-1'') = Some it0"
      "it0 ''steps'' = Some initial_steps" "it0 ''status'' = Some (S ''queued'')"
    by blast
  have run: "update_job_progress ex_ddb_env ex_service ''job-1'' 20 ''download''
               ''completed'' Null ex_tracker = (fst res, snd res)"
    by (simp add: res_def)
  have ok: "fst res = Inr True"
    by (simp add: res_def update_job_progress_def update_item_def except_ClientError_def
        ex_ddb_env_def split_beta Let_def utcnow_def)
  from update_job_progress_frame[OF it0(1) run] obtain it' where
    it': "table (snd res) (qut_username ex_service, ''job-1'') = Some it'"
      "\<forall>a \<in> {''status'', ''steps'', ''total_steps'', ''created_at'', ''video_filename'',
               ''owner'', ''error_message''}. it' a = it0 a"
      "fst res = Inr True \<longrightarrow> it' ''progress'' = Some (N 20)
           \<and> it' ''current_step'' = Some (S ''download'')
           \<and> (truthy Null \<longrightarrow> it' ''ml_result'' = Some (convert_floats_to_decimal Null))"
    by blast
  have "it' ''status'' = Some (S ''queued'')" "it' ''steps'' = Some initial_steps"
    using it'(2) it0(2,3) by simp_all
  moreover have "it' ''progress'' = Some (N 20)" "it' ''current_step'' = Some (S ''download'')"
    using it'(3) ok by simp_all
  ultimately show ?thesis
    using it'(1) unfolding res_def by (intro exI[of _ it']) simp
qed

section \<open>Properties of the media stages\<close>


lemma infer_loop_map:
  "infer_loop env frames_dir topk names acc
     = acc @ map (frame_entry env frames_dir topk) (filter is_jpg names)"
  by (induction names arbitrary: acc) simp_all

lemma frame_entry_frame: "subscript (frame_entry env frames_dir topk f) ''frame'' = S f"
  by (simp add: frame_entry_def subscript_def dict_get_def split: sum.splits)

lemma run_checked_scores [simp]:
  "run_checked (env\<lparr>topk_scores := f\<rparr>) cmd = run_checked env cmd"
  by (simp add: run_checked_def split: sum.splits)

lemma transcode_video_scores [simp]:
  "transcode_video (env\<lparr>topk_scores := f\<rparr>) a b = transcode_video env a b"
  by (simp add: transcode_video_def split: option.splits)

lemma extract_frames_scores [simp]:
  "extract_frames (env\<lparr>topk_scores := f\<rparr>) a b c = extract_frames env a b c"
  by (simp add: extract_frames_def split: option.splits)

lemma process_job_scores:
  "(process_job (env\<lparr>topk_scores := f\<rparr>) video_path out_dir fps = Inl e)
     = (process_job env video_path out_dir fps = Inl e)"
  by (simp add: process_job_def Let_def split: option.splits sum.splits)

text \<open>
  Claim C6. For every frames directory, when the model loads and the directory can be
  listed, \<open>run_inference_on_frames\<close> returns one entry per \<open>.jpg\<close> frame, in sorted
  order; a frame whose classification raises gets, in its own place, an entry with the
  error marker, and every other frame its labels, whatever happened to the frames before
  it. The job goes on regardless of the per-frame errors: whether \<open>process_job\<close> fails
  does not depend on the outcomes of the classification.
\<close>

theorem per_frame_errors_recorded:
  assumes "ensure_model_fault env = None" and "listdir env frames_dir = Inr names"
  shows "(\<exists>results. run_inference_on_frames env frames_dir topk = Inr results
            \<and> length results = length (filter is_jpg names)
            \<and> map (\<lambda>r. subscript r ''frame'') results = map S (filter is_jpg (sort names))
            \<and> (\<forall>i < length results.
                 (\<forall>e. score_frame env (path_join frames_dir (filter is_jpg (sort names) ! i)) topk
                        = Inl e
                      \<longrightarrow> results ! i = M [(''frame'', S (filter is_jpg (sort names) ! i)),
                                           (''labels'', L [M [(''error'', S (exn_str e))]])])
               \<and> (\<forall>labels. score_frame env (path_join frames_dir (filter is_jpg (sort names) ! i))
                              topk = Inr labels
                      \<longrightarrow> results ! i = M [(''frame'', S (filter is_jpg (sort names) ! i)),
                                           (''labels'', L labels)])))
         \<and> (\<forall>f e video_path out_dir fps.
               (process_job (env\<lparr>topk_scores := f\<rparr>) video_path out_dir fps = Inl e)
                 = (process_job env video_path out_dir fps = Inl e))"
proof -
  define frames where "frames = filter is_jpg (sort names)"
  define results where "results = map (frame_entry env frames_dir topk) frames"
  have run: "run_inference_on_frames env frames_dir topk = Inr results"
    using assms by (simp add: run_inference_on_frames_def infer_loop_map results_def frames_def)
  have len: "length results = length (filter is_jpg names)"
    by (simp add: results_def frames_def filter_sort)
  have names': "map (\<lambda>r. subscript r ''frame'') results = map S frames"
    by (simp add: results_def frame_entry_frame comp_def)
  have entries: "\<forall>i < length results.
      (\<forall>e. score_frame env (path_join frames_dir (frames ! i)) topk = Inl e
           \<longrightarrow> results ! i = M [(''frame'', S (frames ! i)),
                                (''labels'', L [M [(''error'', S (exn_str e))]])])
    \<and> (\<forall>labels. score_frame env (path_join frames_dir (frames ! i)) topk = Inr labels
           \<longrightarrow> results ! i = M [(''frame'', S (frames ! i)), (''labels'', L labels)])"
    by (simp add: results_def frame_entry_def)
  show ?thesis
    using run len names' entries process_job_scores unfolding frames_def by blast
qed


theorem per_frame_errors_recorded_witness:
  "ensure_model_fault ex_media_env = None
   \<and> listdir ex_media_env ''/tmp/job/frames''
       = Inr [''frame_00002.jpg'', ''notes.txt'', ''frame_00003.JPG'', ''frame_00001.jpg'']
   \<and> (\<exists>results. run_inference_on_frames ex_media_env ''/tmp/job/frames'' 3 = Inr results
         \<and> length results = 3
         \<and> results ! 1 = M [(''frame'', S ''frame_00002.jpg''),
                            (''labels'', L [M [(''error'', S ''cannot identify image file'')]])]
         \<and> subscript (results ! 2) ''frame'' = S ''frame_00003.JPG'')"
proof -
  define names where
    "names = [''frame_00002.jpg'', ''notes.txt'', ''frame_00003.JPG'', ''frame_00001.jpg'']"
  have h1: "ensure_model_fault ex_media_env = None"
    by (simp add: ex_media_env_def)
  have h2: "listdir ex_media_env ''/tmp/job/frames'' = Inr names"
    by (simp add: ex_media_env_def names_def)
  have frames: "filter is_jpg (sort names)
                  = [''frame_00001.jpg'', ''frame_00002.jpg'', ''frame_00003.JPG'']"
    unfolding names_def by code_simp
  have n: "length (filter is_jpg names) = 3"
    unfolding names_def by code_simp
  have bad: "score_frame ex_media_env (path_join ''/tmp/job/frames'' ''frame_00002.jpg'') 3
               = Inl (Exn OSError ''cannot identify image file'')"
    by (simp add: score_frame_def ex_media_env_def ex_scores_def path_join_def)
  from per_frame_errors_recorded[OF h1 h2, of 3] obtain results where
    r: "run_inference_on_frames ex_media_env ''/tmp/job/frames'' 3 = Inr results"
      "length results = length (filter is_jpg names)"
      "map (\<lambda>r. subscript r ''frame'') results = map S (filter is_jpg (sort names))"
      "\<forall>i < length results.
         (\<forall>e. score_frame ex_media_env
                 (path_join ''/tmp/job/frames'' (filter is_jpg (sort names) ! i)) 3 = Inl e
              \<longrightarrow> results ! i = M [(''frame'', S (filter is_jpg (sort names) ! i)),
                                   (''labels'', L [M [(''error'', S (exn_str e))]])])"
    by blast
  have len: "length results = 3"
    using r(2) n by simp
  have e1: "results ! 1 = M [(''frame'', S ''frame_00002.jpg''),
                            (''labels'', L [M [(''error'', S ''cannot identify image file'')]])]"
    using r(4)[rule_format, of 1 "Exn OSError ''cannot identify image file''"] len bad
    by (simp add: frames)
  have "map (\<lambda>r. subscript r ''frame'') results ! 2 = S ''frame_00003.JPG''"
    by (simp add: r(3) frames)
  then have e2: "subscript (results ! 2) ''frame'' = S ''frame_00003.JPG''"
    using len by simp
  show ?thesis
    using h1 h2 r(1) len e1 e2 unfolding names_def by blast
qed

section \<open>Properties of the orchestrator\<close>

lemma then_do_InrE:
  assumes "then_do m f s = (Inr y, s'')"
  obtains x s' where "m s = (Inr x, s')" and "f x s' = (Inr y, s'')"
  using assms by (auto simp: then_do_def split: prod.splits sum.splits)

lemma then_do_InlE:
  assumes "then_do m f s = (Inl e, s'')"
  obtains (first) "m s = (Inl e, s'')"
        | (later) x s' where "m s = (Inr x, s')" and "f x s' = (Inl e, s'')"
  using assms by (auto simp: then_do_def split: prod.splits sum.splits)

lemma update_item_log:
  assumes "update_item env key sets tr = (f, tr')"
  shows "requests tr' = requests tr @ [\<lparr>req_key = key, req_sets = sets, req_applied = (f = None)\<rparr>]"
    and "f \<noteq> None \<Longrightarrow> table tr' = table tr"
    and "f = None \<Longrightarrow> table tr' = (table tr)(key \<mapsto>
           (case table tr key of None \<Rightarrow> key_item key | Some it \<Rightarrow> it) ++ map_of sets)"
  using assms
  by (cases "ddb_fault env (length (requests tr))"; auto simp: update_item_def)+

lemma except_ClientError_cases:
  assumes "except_ClientError (f, tr) = (r, tr')"
  shows "tr' = tr" and "(r = Inr True) = (f = None)"
    and "(\<exists>e. r = Inl e) = (\<exists>e. f = Some e \<and> exn_cls e \<noteq> ClientError)"
  using assms by (auto simp: except_ClientError_def split: option.splits if_splits)

text \<open>What one tracker call of the orchestrator does to the world.\<close>

lemma progress_step:
  assumes "progress env job_id p step st w = (r, w')"
  shows "bucket w' = bucket w" and "sql_jobs w' = sql_jobs w"
    and "\<exists>rq. requests (progress_store w') = requests (progress_store w) @ [rq]
            \<and> req_progress rq = Some p
            \<and> req_key rq = (qut_username (dynamodb_service env), job_id)
            \<and> map_of (req_sets rq) ''current_step'' = Some (S step)
            \<and> map_of (req_sets rq) ''status'' = None
            \<and> req_applied rq = (r = Inr True)"
    and "r \<noteq> Inr True \<Longrightarrow> table (progress_store w') = table (progress_store w)"
    and "r = Inr True \<Longrightarrow>
           \<exists>it. table (progress_store w') (qut_username (dynamodb_service env), job_id) = Some it
              \<and> it ''progress'' = Some (N p) \<and> it ''current_step'' = Some (S step)"
proof -
  define tr1 where "tr1 = snd (utcnow (ddb env) (progress_store w))"
  define sets where "sets = [(''progress'', N p), (''current_step'', S step),
                             (''updated_at'', S (fst (utcnow (ddb env) (progress_store w))))]"
  define key where "key = (qut_username (dynamodb_service env), job_id)"
  obtain f tr2 where u: "update_item (ddb env) key sets tr1 = (f, tr2)"
    by (cases "update_item (ddb env) key sets tr1") auto
  have "update_job_progress (ddb env) (dynamodb_service env) job_id p step st Null
          (progress_store w) = except_ClientError (update_item (ddb env) key sets tr1)"
    unfolding update_job_progress_def sets_def tr1_def key_def by (simp add: split_beta Let_def)
  then have "progress env job_id p step st w
          = (fst (except_ClientError (f, tr2)), w\<lparr>progress_store := snd (except_ClientError (f, tr2))\<rparr>)"
    by (simp add: progress_def on_tracker_def u split_beta)
  with assms have r: "r = fst (except_ClientError (f, tr2))"
    and w': "w' = w\<lparr>progress_store := snd (except_ClientError (f, tr2))\<rparr>" by simp_all
  from except_ClientError_cases[OF surjective_pairing, of f tr2] r w'
  have w'': "w' = w\<lparr>progress_store := tr2\<rparr>" and rT: "(r = Inr True) = (f = None)"
    by simp_all
  have t1: "requests tr1 = requests (progress_store w)" "table tr1 = table (progress_store w)"
    by (simp_all add: tr1_def utcnow_def)
  show "bucket w' = bucket w" "sql_jobs w' = sql_jobs w" by (simp_all add: w'')
  have sets_facts: "map_of sets ''progress'' = Some (N p)"
    "map_of sets ''current_step'' = Some (S step)" "map_of sets ''status'' = None"
    by (simp_all add: sets_def)
  from update_item_log(1)[OF u] t1 sets_facts rT
  show "\<exists>rq. requests (progress_store w') = requests (progress_store w) @ [rq]
            \<and> req_progress rq = Some p
            \<and> req_key rq = (qut_username (dynamodb_service env), job_id)
            \<and> map_of (req_sets rq) ''current_step'' = Some (S step)
            \<and> map_of (req_sets rq) ''status'' = None
            \<and> req_applied rq = (r = Inr True)"
    by (simp add: w'' req_progress_def key_def)
  show "r \<noteq> Inr True \<Longrightarrow> table (progress_store w') = table (progress_store w)"
    using update_item_log(2)[OF u] t1 rT by (simp add: w'')
  show "r = Inr True \<Longrightarrow>
           \<exists>it. table (progress_store w') (qut_username (dynamodb_service env), job_id) = Some it
              \<and> it ''progress'' = Some (N p) \<and> it ''current_step'' = Some (S step)"
    using update_item_log(3)[OF u] rT sets_facts
    by (simp add: w'' key_def map_add_def)
qed


lemma complete_step:
  assumes "on_tracker (complete_job (ddb env) (dynamodb_service env) job_id result) w = (r, w')"
  shows "bucket w' = bucket w" and "sql_jobs w' = sql_jobs w"
    and "\<exists>rq. requests (progress_store w') = requests (progress_store w) @ [rq]
            \<and> req_progress rq = Some 100
            \<and> req_key rq = (qut_username (dynamodb_service env), job_id)
            \<and> map_of (req_sets rq) ''current_step'' = None
            \<and> map_of (req_sets rq) ''status'' = Some (S ''completed'')
            \<and> req_applied rq = (r = Inr True)"
    and "r \<noteq> Inr True \<Longrightarrow> table (progress_store w') = table (progress_store w)"
    and "r = Inr True \<Longrightarrow>
           \<exists>it. table (progress_store w') (qut_username (dynamodb_service env), job_id) = Some it
              \<and> it ''progress'' = Some (N 100) \<and> it ''status'' = Some (S ''completed'')
              \<and> it ''ml_result'' = Some (convert_floats_to_decimal result)"
proof -
  define tr1 where "tr1 = snd (utcnow (ddb env) (progress_store w))"
  define sets where "sets = [(''status'', S ''completed''), (''progress'', N 100),
               (''ml_result'', convert_floats_to_decimal result),
               (''updated_at'', S (fst (utcnow (ddb env) (progress_store w))))]"
  define key where "key = (qut_username (dynamodb_service env), job_id)"
  obtain f tr2 where u: "update_item (ddb env) key sets tr1 = (f, tr2)"
    by (cases "update_item (ddb env) key sets tr1") auto
  have "complete_job (ddb env) (dynamodb_service env) job_id result (progress_store w)
          = except_ClientError (update_item (ddb env) key sets tr1)"
    unfolding complete_job_def sets_def tr1_def key_def by (simp add: split_beta Let_def)
  then have "on_tracker (complete_job (ddb env) (dynamodb_service env) job_id result) w
          = (fst (except_ClientError (f, tr2)), w\<lparr>progress_store := snd (except_ClientError (f, tr2))\<rparr>)"
    by (simp add: on_tracker_def u split_beta)
  with assms have r: "r = fst (except_ClientError (f, tr2))"
    and w': "w' = w\<lparr>progress_store := snd (except_ClientError (f, tr2))\<rparr>" by simp_all
  from except_ClientError_cases[OF surjective_pairing, of f tr2] r w'
  have w'': "w' = w\<lparr>progress_store := tr2\<rparr>" and rT: "(r = Inr True) = (f = None)"
    by simp_all
  have t1: "requests tr1 = requests (progress_store w)" "table tr1 = table (progress_store w)"
    by (simp_all add: tr1_def utcnow_def)
  show "bucket w' = bucket w" "sql_jobs w' = sql_jobs w" by (simp_all add: w'')
  have sets_facts: "map_of sets ''progress'' = Some (N 100)"
    "map_of sets ''current_step'' = None" "map_of sets ''status'' = Some (S ''completed'')"
    "map_of sets ''ml_result'' = Some (convert_floats_to_decimal result)"
    by (simp_all add: sets_def)
  from update_item_log(1)[OF u] t1 sets_facts rT
  show "\<exists>rq. requests (progress_store w') = requests (progress_store w) @ [rq]
            \<and> req_progress rq = Some 100
            \<and> req_key rq = (qut_username (dynamodb_service env), job_id)
            \<and> map_of (req_sets rq) ''current_step'' = None
            \<and> map_of (req_sets rq) ''status'' = Some (S ''completed'')
            \<and> req_applied rq = (r = Inr True)"
    by (simp add: w'' req_progress_def key_def)
  show "r \<noteq> Inr True \<Longrightarrow> table (progress_store w') = table (progress_store w)"
    using update_item_log(2)[OF u] t1 rT by (simp add: w'')
  show "r = Inr True \<Longrightarrow>
           \<exists>it. table (progress_store w') (qut_username (dynamodb_service env), job_id) = Some it
              \<and> it ''progress'' = Some (N 100) \<and> it ''status'' = Some (S ''completed'')
              \<and> it ''ml_result'' = Some (convert_floats_to_decimal result)"
    using update_item_log(3)[OF u] rT sets_facts
    by (simp add: w'' key_def map_add_def)
qed

lemma fail_step:
  assumes "on_tracker (fail_job (ddb env) (dynamodb_service env) job_id msg) w = (r, w')"
  shows "bucket w' = bucket w" and "sql_jobs w' = sql_jobs w"
    and "\<exists>rq. requests (progress_store w') = requests (progress_store w) @ [rq]
            \<and> req_progress rq = None
            \<and> req_key rq = (qut_username (dynamodb_service env), job_id)
            \<and> map_of (req_sets rq) ''status'' = Some (S ''failed'')
            \<and> map_of (req_sets rq) ''error_message'' = Some (S msg)
            \<and> req_applied rq = (r = Inr True)"
    and "r \<noteq> Inr True \<Longrightarrow> table (progress_store w') = table (progress_store w)"
    and "r = Inr True \<Longrightarrow>
           \<exists>it. table (progress_store w') (qut_username (dynamodb_service env), job_id) = Some it
              \<and> it ''status'' = Some (S ''failed'') \<and> it ''error_message'' = Some (S msg)
              \<and> (\<forall>it0. table (progress_store w) (qut_username (dynamodb_service env), job_id)
                          = Some it0
                        \<longrightarrow> it ''progress'' = it0 ''progress''
                            \<and> it ''current_step'' = it0 ''current_step''
                            \<and> it ''steps'' = it0 ''steps'')"
proof -
  define tr1 where "tr1 = snd (utcnow (ddb env) (progress_store w))"
  define sets where "sets = [(''status'', S ''failed''), (''error_message'', S msg),
               (''updated_at'', S (fst (utcnow (ddb env) (progress_store w))))]"
  define key where "key = (qut_username (dynamodb_service env), job_id)"
  obtain f tr2 where u: "update_item (ddb env) key sets tr1 = (f, tr2)"
    by (cases "update_item (ddb env) key sets tr1") auto
  have "fail_job (ddb env) (dynamodb_service env) job_id msg (progress_store w)
          = except_ClientError (update_item (ddb env) key sets tr1)"
    unfolding fail_job_def sets_def tr1_def key_def by (simp add: split_beta Let_def)
  then have "on_tracker (fail_job (ddb env) (dynamodb_service env) job_id msg) w
          = (fst (except_ClientError (f, tr2)), w\<lparr>progress_store := snd (except_ClientError (f, tr2))\<rparr>)"
    by (simp add: on_tracker_def u split_beta)
  with assms have r: "r = fst (except_ClientError (f, tr2))"
    and w': "w' = w\<lparr>progress_store := snd (except_ClientError (f, tr2))\<rparr>" by simp_all
  from except_ClientError_cases[OF surjective_pairing, of f tr2] r w'
  have w'': "w' = w\<lparr>progress_store := tr2\<rparr>" and rT: "(r = Inr True) = (f = None)"
    by simp_all
  have t1: "requests tr1 = requests (progress_store w)" "table tr1 = table (progress_store w)"
    by (simp_all add: tr1_def utcnow_def)
  show "bucket w' = bucket w" "sql_jobs w' = sql_jobs w" by (simp_all add: w'')
  have sets_facts: "map_of sets ''progress'' = None" "map_of sets ''current_step'' = None"
    "map_of sets ''steps'' = None"
    "map_of sets ''status'' = Some (S ''failed'')"
    "map_of sets ''error_message'' = Some (S msg)"
    by (simp_all add: sets_def)
  from update_item_log(1)[OF u] t1 sets_facts rT
  show "\<exists>rq. requests (progress_store w') = requests (progress_store w) @ [rq]
            \<and> req_progress rq = None
            \<and> req_key rq = (qut_username (dynamodb_service env), job_id)
            \<and> map_of (req_sets rq) ''status'' = Some (S ''failed'')
            \<and> map_of (req_sets rq) ''error_message'' = Some (S msg)
            \<and> req_applied rq = (r = Inr True)"
    by (simp add: w'' req_progress_def key_def)
  show "r \<noteq> Inr True \<Longrightarrow> table (progress_store w') = table (progress_store w)"
    using update_item_log(2)[OF u] t1 rT by (simp add: w'')
  show "r = Inr True \<Longrightarrow>
           \<exists>it. table (progress_store w') (qut_username (dynamodb_service env), job_id) = Some it
              \<and> it ''status'' = Some (S ''failed'') \<and> it ''error_message'' = Some (S msg)
              \<and> (\<forall>it0. table (progress_store w) (qut_username (dynamodb_service env), job_id)
                          = Some it0
                        \<longrightarrow> it ''progress'' = it0 ''progress''
                            \<and> it ''current_step'' = it0 ''current_step''
                            \<and> it ''steps'' = it0 ''steps'')"
    using update_item_log(3)[OF u] rT sets_facts t1
    by (simp add: w'' key_def map_add_def)
qed

lemma download_input_world: "download_input env key w = (r, w') \<Longrightarrow> w' = w"
  by (auto simp: download_input_def Let_def split: sum.splits option.splits)

lemma pure_step_world: "pure_step x w = (r, w') \<Longrightarrow> w' = w \<and> r = x"
  by (simp add: pure_step_def)

lemma on_bucket_world:
  "on_bucket f w = (r, w') \<Longrightarrow> progress_store w' = progress_store w \<and> sql_jobs w' = sql_jobs w"
  by (auto simp: on_bucket_def split: prod.splits)

lemma sql_finalize_world:
  "progress_store (sql_finalize env job_id result w) = progress_store w"
  "bucket (sql_finalize env job_id result w) = bucket w"
  by (simp_all add: sql_finalize_def split: sum.splits)


lemma try_block_success:
  assumes "try_block env key j fps w = (Inr result, w')"
  shows "\<exists>new. requests (progress_store w') = requests (progress_store w) @ new
           \<and> map req_progress new = [Some 20, Some 40, Some 60, Some 80, Some 100, Some 100]
           \<and> map (\<lambda>rq. map_of (req_sets rq) ''current_step'') new
               = [Some (S ''download''), Some (S ''thumbnail''), Some (S ''transcode''),
                  Some (S ''ml_prediction''), Some (S ''complete''), None]
           \<and> (\<forall>rq \<in> set new. req_key rq = (qut_username (dynamodb_service env), j))
           \<and> (req_applied (last new) \<longrightarrow>
                (\<exists>it. table (progress_store w') (qut_username (dynamodb_service env), j) = Some it
                   \<and> it ''progress'' = Some (N 100) \<and> it ''status'' = Some (S ''completed'')))"
  using assms unfolding try_block_def
  apply (elim then_do_InrE)
  subgoal premises p for b1 w1 path w2 b3 w3 res0 w4 b5 w5 b6 w6 res1 w7 b8 w8 b9 w9
  proof -
    let ?K = "(qut_username (dynamodb_service env), j)"
    have w2: "w2 = w1" using download_input_world[OF p(2)] .
    have w4: "w4 = w3" using pure_step_world[OF p(4)] by simp
    have w7: "progress_store w7 = progress_store w6" using on_bucket_world[OF p(7)] by simp
    from p(10) have fin: "w' = sql_finalize env j (M res1) w9" by blast
    have w': "progress_store w' = progress_store w9"
      unfolding fin by (rule sql_finalize_world(1))
    from progress_step(3)[OF p(1)] obtain rq1 where
      r1: "requests (progress_store w1) = requests (progress_store w) @ [rq1]"
        "req_progress rq1 = Some 20" "req_key rq1 = ?K"
        "map_of (req_sets rq1) ''current_step'' = Some (S ''download'')" by blast
    from progress_step(3)[OF p(3)] obtain rq2 where
      r2: "requests (progress_store w3) = requests (progress_store w2) @ [rq2]"
        "req_progress rq2 = Some 40" "req_key rq2 = ?K"
        "map_of (req_sets rq2) ''current_step'' = Some (S ''thumbnail'')" by blast
    from progress_step(3)[OF p(5)] obtain rq3 where
      r3: "requests (progress_store w5) = requests (progress_store w4) @ [rq3]"
        "req_progress rq3 = Some 60" "req_key rq3 = ?K"
        "map_of (req_sets rq3) ''current_step'' = Some (S ''transcode'')" by blast
    from progress_step(3)[OF p(6)] obtain rq4 where
      r4: "requests (progress_store w6) = requests (progress_store w5) @ [rq4]"
        "req_progress rq4 = Some 80" "req_key rq4 = ?K"
        "map_of (req_sets rq4) ''current_step'' = Some (S ''ml_prediction'')" by blast
    from progress_step(3)[OF p(8)] obtain rq5 where
      r5: "requests (progress_store w8) = requests (progress_store w7) @ [rq5]"
        "req_progress rq5 = Some 100" "req_key rq5 = ?K"
        "map_of (req_sets rq5) ''current_step'' = Some (S ''complete'')" by blast
    from complete_step(3)[OF p(9)] obtain rq6 where
      r6: "requests (progress_store w9) = requests (progress_store w8) @ [rq6]"
        "req_progress rq6 = Some 100" "req_key rq6 = ?K"
        "map_of (req_sets rq6) ''current_step'' = None"
        "req_applied rq6 = (Inr b9 = (Inr True :: exn + bool))" by blast
    define new where "new = [rq1, rq2, rq3, rq4, rq5, rq6]"
    have log: "requests (progress_store w') = requests (progress_store w) @ new"
      by (simp add: new_def w' r6(1) r5(1) w7 r4(1) r3(1) w4 r2(1) w2 r1(1))
    have vals: "map req_progress new = [Some 20, Some 40, Some 60, Some 80, Some 100, Some 100]"
      by (simp add: new_def r1(2) r2(2) r3(2) r4(2) r5(2) r6(2))
    have steps: "map (\<lambda>rq. map_of (req_sets rq) ''current_step'') new
               = [Some (S ''download''), Some (S ''thumbnail''), Some (S ''transcode''),
                  Some (S ''ml_prediction''), Some (S ''complete''), None]"
      by (simp add: new_def r1(4) r2(4) r3(4) r4(4) r5(4) r6(4))
    have keys: "\<forall>rq \<in> set new. req_key rq = ?K"
      by (simp add: new_def r1(3) r2(3) r3(3) r4(3) r5(3) r6(3))
    have final: "req_applied (last new) \<longrightarrow>
                (\<exists>it. table (progress_store w') ?K = Some it
                   \<and> it ''progress'' = Some (N 100) \<and> it ''status'' = Some (S ''completed''))"
    proof
      assume "req_applied (last new)"
      then have "Inr b9 = (Inr True :: exn + bool)" by (simp add: new_def r6(5))
      from complete_step(5)[OF p(9) this] show "\<exists>it. table (progress_store w') ?K = Some it
                   \<and> it ''progress'' = Some (N 100) \<and> it ''status'' = Some (S ''completed'')"
        by (auto simp: w')
    qed
    show ?thesis
      by (rule exI[of _ new], intro conjI) (rule log, rule vals, rule steps, rule keys, rule final)
  qed
  done

end
